theory Spec2Isabelle
  imports Main
begin

section \<open>Data model\<close>

text \<open>
  The program is \<^verbatim>\<open>src/main.py\<close>: a Qt widget \<^verbatim>\<open>TranslatorApp\<close> that loads two
  primary dictionaries at start-up (\<^verbatim>\<open>load_main_data\<close>, \<^verbatim>\<open>load_sk_main_data\<close>),
  resolves the typed text through them (\<^verbatim>\<open>translate\<close>) and reads the per-country
  tables lazily through two caches (\<^verbatim>\<open>get_country_data\<close>,
  \<^verbatim>\<open>get_sk_country_data\<close>).

  Python's \<^verbatim>\<open>str\<close> is modelled as \<^typ>\<open>string\<close> holding the UTF-8 bytes of the
  text. The program only tests strings for emptiness and equality and scans them for the
  ASCII braces, none of which can tell bytes from code points (no byte of a multi-byte
  UTF-8 sequence is below \<open>0x80\<close>).

  A JSON object whose values are strings is a map from keys to strings; the fields the
  program reads (\<^verbatim>\<open>Country\<close>, \<^verbatim>\<open>HID\<close>, \<^verbatim>\<open>exegesis\<close>, \<^verbatim>\<open>name\<close>) are strings
  in the files' format, and a key may be missing. Files whose values have other JSON
  types than the format gives them (a table that is a list, a \<^verbatim>\<open>Country\<close> that is a
  number) are outside the model.
\<close>

type_synonym json_obj = "string \<rightharpoonup> string"

text \<open>A country table file: a JSON object from HID to an entry object.\<close>

type_synonym table = "string \<rightharpoonup> json_obj"

text \<open>
  A primary dictionary file: a JSON object from canonical name to an entry object. The
  loader iterates over \<^verbatim>\<open>main_data.items()\<close>, so the order of the entries matters
  and the parsed object is the list of its items.
\<close>

type_synonym main_data = "(string \<times> json_obj) list"

text \<open>
  What reading and parsing a file gives: the file does not exist; or \<^verbatim>\<open>open\<close> or
  \<^verbatim>\<open>json.load\<close> raises (the string is \<^verbatim>\<open>str(e)\<close> of the exception); or the
  parsed content.
\<close>

datatype 'a loaded = Absent | Unparsable string | Parsed 'a

text \<open>The value \<^verbatim>\<open>{'Country': ..., 'HID': ...}\<close> stored in the alias index.\<close>

record name_record =
  Country :: string
  HID :: string

type_synonym index = "string \<rightharpoonup> name_record"

text \<open>
  The exceptions of the modelled code. The string of \<^verbatim>\<open>AttributeError\<close> and
  \<^verbatim>\<open>KeyError\<close> is the missing attribute or key; the string of
  \<^verbatim>\<open>UnicodeEncodeError\<close> is \<^verbatim>\<open>str(e)\<close>.
\<close>

datatype exn = AttributeError string | KeyError string | UnicodeEncodeError string

text \<open>
  What surrounds the program at one call: the country table files, by path, and the
  standard output. \<^verbatim>\<open>print\<close> raises when the stream cannot take the line (a
  \<^verbatim>\<open>UnicodeEncodeError\<close> when its encoding has no code for a character of the
  line); \<open>print_raises\<close> gives the exception for a line, \<open>None\<close> when the line
  is printed.
\<close>

record environment =
  read_file :: "string \<Rightarrow> table loaded"
  print_raises :: "string \<Rightarrow> exn option"

text \<open>
  The fields of \<^verbatim>\<open>self\<close> that the lookup logic uses. \<^verbatim>\<open>name_to_info\<close> and
  \<^verbatim>\<open>sk_name_to_info\<close> are assigned only inside the loaders, so the attribute may not
  exist: \<open>None\<close> is the missing attribute. \<^verbatim>\<open>output_edit_1\<close> and
  \<^verbatim>\<open>output_edit_2\<close> are the texts of the two read-only result fields;
  \<open>stdout\<close> collects the lines the program prints.
\<close>

record app =
  name_to_info :: "index option"
  sk_name_to_info :: "index option"
  country_data_cache :: "string \<rightharpoonup> table"
  sk_country_data_cache :: "string \<rightharpoonup> table"
  output_edit_1 :: string
  output_edit_2 :: string
  last_input :: string
  stdout :: "string list"

section \<open>String constants of the source\<close>

text \<open>\<^verbatim>\<open>"no translation result"\<close>: U+65E0 U+6B64 U+7FFB U+8BD1 U+7ED3 U+679C.\<close>

definition NO_RESULT :: string where
  "NO_RESULT = [CHR 0xE6, CHR 0x97, CHR 0xA0, CHR 0xE6, CHR 0xAD, CHR 0xA4,
    CHR 0xE7, CHR 0xBF, CHR 0xBB, CHR 0xE8, CHR 0xAF, CHR 0x91,
    CHR 0xE7, CHR 0xBB, CHR 0x93, CHR 0xE6, CHR 0x9E, CHR 0x9C]"

text \<open>\<^verbatim>\<open>"translation data not found"\<close>:
  U+672A U+627E U+5230 U+7FFB U+8BD1 U+6570 U+636E U+4FE1 U+606F.\<close>

definition DATA_NOT_FOUND :: string where
  "DATA_NOT_FOUND = [CHR 0xE6, CHR 0x9C, CHR 0xAA, CHR 0xE6, CHR 0x89, CHR 0xBE,
    CHR 0xE5, CHR 0x88, CHR 0xB0, CHR 0xE7, CHR 0xBF, CHR 0xBB,
    CHR 0xE8, CHR 0xAF, CHR 0x91, CHR 0xE6, CHR 0x95, CHR 0xB0,
    CHR 0xE6, CHR 0x8D, CHR 0xAE, CHR 0xE4, CHR 0xBF, CHR 0xA1,
    CHR 0xE6, CHR 0x81, CHR 0xAF]"

text \<open>The tail \<^verbatim>\<open>"main data" "when" "exception" ":"\<close> shared by the load messages:
  U+4E3B U+6570 U+636E U+65F6 U+5F02 U+5E38 U+FF1A; and the head \<^verbatim>\<open>"load"\<close>:
  U+52A0 U+8F7D.\<close>

definition LOAD :: string where
  "LOAD = [CHR 0xE5, CHR 0x8A, CHR 0xA0, CHR 0xE8, CHR 0xBD, CHR 0xBD]"

definition DATA_EXCEPTION :: string where
  "DATA_EXCEPTION = [CHR 0xE6, CHR 0x95, CHR 0xB0, CHR 0xE6, CHR 0x8D, CHR 0xAE,
    CHR 0xE6, CHR 0x97, CHR 0xB6, CHR 0xE5, CHR 0xBC, CHR 0x82,
    CHR 0xE5, CHR 0xB8, CHR 0xB8, CHR 0xEF, CHR 0xBC, CHR 0x9A]"

definition MAIN :: string where
  "MAIN = [CHR 0xE4, CHR 0xB8, CHR 0xBB]"

text \<open>The prefix of the text shown when \<^verbatim>\<open>load_main_data\<close> fails.\<close>

definition LOAD_ONE_FAILED :: string where
  "LOAD_ONE_FAILED = LOAD @ ''One'' @ MAIN @ DATA_EXCEPTION"

text \<open>The prefix of the text shown when \<^verbatim>\<open>load_sk_main_data\<close> fails.\<close>

definition LOAD_SK_FAILED :: string where
  "LOAD_SK_FAILED = LOAD @ ''SK'' @ MAIN @ DATA_EXCEPTION"

text \<open>\<^verbatim>\<open>str(e)\<close> of the \<^verbatim>\<open>FileNotFoundError\<close> that \<^verbatim>\<open>open\<close> raises on a
  missing file, and of a \<^verbatim>\<open>KeyError\<close>.\<close>

definition str_FileNotFoundError :: "string \<Rightarrow> string" where
  "str_FileNotFoundError path =
     ''[Errno 2] No such file or directory: '' @ [CHR 0x27] @ path @ [CHR 0x27]"

definition str_KeyError :: "string \<Rightarrow> string" where
  "str_KeyError k = [CHR 0x27] @ k @ [CHR 0x27]"

section \<open>Alias extraction\<close>

text \<open>
  \<^verbatim>\<open>re.findall('\\{([^}]+)}', exegesis)\<close>: the non-overlapping matches, left to
  right, of an opening brace, one or more characters other than the closing brace, and
  a closing brace; the result lists the text between the braces. At an opening brace
  the greedy class runs to the next closing brace; the match fails there when nothing
  lies between the two or when the string ends first, and the scan goes on one
  character further. After a match the scan goes on behind the closing brace.
\<close>

function findall :: "string \<Rightarrow> string list" where
  "findall [] = []"
| "findall (c # cs) =
     (if c = CHR ''{'' then
        (let body = takeWhile (\<lambda>x. x \<noteq> CHR ''}'') cs;
             rest = dropWhile (\<lambda>x. x \<noteq> CHR ''}'') cs
         in if body \<noteq> [] \<and> rest \<noteq> [] then body # findall (tl rest)
            else findall cs)
      else findall cs)"
  by pat_completeness auto
termination
proof (relation "measure length")
  fix c :: char and cs body rest
  assume "rest = dropWhile (\<lambda>x. x \<noteq> CHR ''}'') cs"
  then have "length rest \<le> length cs"
    by (simp add: length_dropWhile_le)
  then show "(tl rest, c # cs) \<in> measure length"
    by simp
qed simp_all

text \<open>\<^verbatim>\<open>d.get(k, dflt)\<close> of a Python dict.\<close>

definition dict_get :: "('k \<rightharpoonup> 'v) \<Rightarrow> 'k \<Rightarrow> 'v \<Rightarrow> 'v" where
  "dict_get d k dflt = (case d k of None \<Rightarrow> dflt | Some v \<Rightarrow> v)"

section \<open>Loading the primary dictionaries\<close>

definition MAIN_PATH :: string where
  "MAIN_PATH = ''Database/CsOne_main.json''"

definition SK_MAIN_PATH :: string where
  "SK_MAIN_PATH = ''Database/CsSK_main.json''"

text \<open>
  The loop \<^verbatim>\<open>for name, info in main_data.items()\<close> of \<^verbatim>\<open>load_main_data\<close> (and of
  \<^verbatim>\<open>load_sk_main_data\<close>, which has the same body), run on the index built so far.
  \<^verbatim>\<open>info['Country']\<close> and \<^verbatim>\<open>info['HID']\<close> raise \<^verbatim>\<open>KeyError\<close> on a missing key,
  before anything of that entry is stored; the index is mutated in place, so what
  earlier entries stored stays when a later entry raises.
\<close>

fun load_items :: "main_data \<Rightarrow> index \<Rightarrow> index \<times> exn option" where
  "load_items [] idx = (idx, None)"
| "load_items ((name, info) # items) idx =
     (case info ''Country'' of
        None \<Rightarrow> (idx, Some (KeyError ''Country''))
      | Some country \<Rightarrow>
         (case info ''HID'' of
            None \<Rightarrow> (idx, Some (KeyError ''HID''))
          | Some hid \<Rightarrow>
             (let idx1 = idx(name \<mapsto> \<lparr>Country = country, HID = hid\<rparr>);
                  exegesis = dict_get info ''exegesis'' [];
                  aliases = findall exegesis
              in load_items items
                   (fold (\<lambda>alias m. m(alias \<mapsto> \<lparr>Country = country, HID = hid\<rparr>))
                      aliases idx1))))"

fun str_exn :: "exn \<Rightarrow> string" where
  "str_exn (KeyError k) = str_KeyError k"
| "str_exn (AttributeError a) =
     [CHR 0x27] @ ''TranslatorApp'' @ [CHR 0x27] @ '' object has no attribute ''
       @ [CHR 0x27] @ a @ [CHR 0x27]"
| "str_exn (UnicodeEncodeError msg) = msg"

text \<open>
  \<^verbatim>\<open>load_main_data\<close>. The assignment \<^verbatim>\<open>self.name_to_info = {}\<close> stands inside the
  \<^verbatim>\<open>try\<close>, after \<^verbatim>\<open>open\<close> and \<^verbatim>\<open>json.load\<close>: when one of these raises, the
  attribute is not assigned. The handler writes the message to the first result field
  (\<^verbatim>\<open>initUI\<close> has run before, so \<^verbatim>\<open>hasattr(self, 'output_edit_1')\<close> holds).
\<close>

definition load_main_data :: "main_data loaded \<Rightarrow> app \<Rightarrow> app" where
  "load_main_data f s =
     (case f of
        Absent \<Rightarrow>
          s\<lparr>output_edit_1 := LOAD_ONE_FAILED @ str_FileNotFoundError MAIN_PATH\<rparr>
      | Unparsable msg \<Rightarrow> s\<lparr>output_edit_1 := LOAD_ONE_FAILED @ msg\<rparr>
      | Parsed main_data \<Rightarrow>
          (case load_items main_data Map.empty of
             (idx, None) \<Rightarrow> s\<lparr>name_to_info := Some idx\<rparr>
           | (idx, Some e) \<Rightarrow>
               s\<lparr>name_to_info := Some idx,
                 output_edit_1 := LOAD_ONE_FAILED @ str_exn e\<rparr>))"

text \<open>\<^verbatim>\<open>load_sk_main_data\<close>: the same on the second dictionary, index and field.\<close>

definition load_sk_main_data :: "main_data loaded \<Rightarrow> app \<Rightarrow> app" where
  "load_sk_main_data f s =
     (case f of
        Absent \<Rightarrow>
          s\<lparr>output_edit_2 := LOAD_SK_FAILED @ str_FileNotFoundError SK_MAIN_PATH\<rparr>
      | Unparsable msg \<Rightarrow> s\<lparr>output_edit_2 := LOAD_SK_FAILED @ msg\<rparr>
      | Parsed sk_main_data \<Rightarrow>
          (case load_items sk_main_data Map.empty of
             (idx, None) \<Rightarrow> s\<lparr>sk_name_to_info := Some idx\<rparr>
           | (idx, Some e) \<Rightarrow>
               s\<lparr>sk_name_to_info := Some idx,
                 output_edit_2 := LOAD_SK_FAILED @ str_exn e\<rparr>))"

text \<open>
  \<^verbatim>\<open>TranslatorApp.__init__\<close>: \<^verbatim>\<open>initUI\<close> creates the empty result fields, the two
  loaders run, then \<^verbatim>\<open>last_input\<close> and the two caches are initialised.
\<close>

definition initUI :: app where
  "initUI = \<lparr>name_to_info = None, sk_name_to_info = None,
     country_data_cache = Map.empty, sk_country_data_cache = Map.empty,
     output_edit_1 = [], output_edit_2 = [], last_input = [], stdout = []\<rparr>"

definition init :: "main_data loaded \<Rightarrow> main_data loaded \<Rightarrow> app" where
  "init main_file sk_main_file =
     (load_sk_main_data sk_main_file (load_main_data main_file initUI))
       \<lparr>last_input := [], country_data_cache := Map.empty,
        sk_country_data_cache := Map.empty\<rparr>"

section \<open>The country table caches\<close>

text \<open>\<^verbatim>\<open>f'Database/Cs{country}.json'\<close>, the path both caches read.\<close>

definition file_path :: "string \<Rightarrow> string" where
  "file_path country = ''Database/Cs'' @ country @ ''.json''"

definition ESC :: char where
  "ESC = CHR 0x1B"

text \<open>
  \<^verbatim>\<open>get_country_data\<close>: the cached table when the country is a key of the cache
  (whatever the table is); otherwise the file is read, and stored only when it exists
  and parses. A missing file gives \<^verbatim>\<open>None\<close> silently. When \<^verbatim>\<open>open\<close> or
  \<^verbatim>\<open>json.load\<close> raises, the handler prints a line and returns \<^verbatim>\<open>None\<close>; the
  \<^verbatim>\<open>print\<close> is not guarded, so an exception it raises leaves the function. The
  result is what the call returns (\<open>Inr\<close>) or the exception it raises (\<open>Inl\<close>), and
  the state reached.
\<close>

definition get_country_data ::
  "environment \<Rightarrow> string \<Rightarrow> app \<Rightarrow> (exn + table option) \<times> app" where
  "get_country_data env country s =
     (case country_data_cache s country of
        Some t \<Rightarrow> (Inr (Some t), s)
      | None \<Rightarrow>
         (case read_file env (file_path country) of
            Parsed data \<Rightarrow>
              (Inr (Some data),
               s\<lparr>country_data_cache := (country_data_cache s)(country \<mapsto> data)\<rparr>)
          | Absent \<Rightarrow> (Inr None, s)
          | Unparsable msg \<Rightarrow>
              (let line = LOAD @ ''['' @ country @ '']'' @ DATA_EXCEPTION @ msg
               in case print_raises env line of
                    Some e \<Rightarrow> (Inl e, s)
                  | None \<Rightarrow> (Inr None, s\<lparr>stdout := stdout s @ [line]\<rparr>))))"

definition get_sk_country_data ::
  "environment \<Rightarrow> string \<Rightarrow> app \<Rightarrow> (exn + table option) \<times> app" where
  "get_sk_country_data env country s =
     (case sk_country_data_cache s country of
        Some t \<Rightarrow> (Inr (Some t), s)
      | None \<Rightarrow>
         (case read_file env (file_path country) of
            Parsed data \<Rightarrow>
              (Inr (Some data),
               s\<lparr>sk_country_data_cache := (sk_country_data_cache s)(country \<mapsto> data)\<rparr>)
          | Absent \<Rightarrow> (Inr None, s)
          | Unparsable msg \<Rightarrow>
              (let line = LOAD @ '' '' @ [ESC] @ ''[94mCs'' @ country @ ''.json'' @ [ESC]
                     @ ''[0m '' @ DATA_EXCEPTION @ [ESC] @ ''[91m'' @ msg @ [ESC] @ ''[0m''
               in case print_raises env line of
                    Some e \<Rightarrow> (Inl e, s)
                  | None \<Rightarrow> (Inr None, s\<lparr>stdout := stdout s @ [line]\<rparr>))))"

section \<open>Translation\<close>

text \<open>
  The truth value of \<^verbatim>\<open>country_data\<close> in \<^verbatim>\<open>if country_data:\<close>: \<^verbatim>\<open>None\<close> and the
  empty dict are false.
\<close>

definition truthy :: "table option \<Rightarrow> bool" where
  "truthy country_data = (case country_data of None \<Rightarrow> False | Some t \<Rightarrow> t \<noteq> Map.empty)"

text \<open>
  The first block of \<^verbatim>\<open>translate\<close> (Chinese to English, lines 336 to 351). Reading
  \<^verbatim>\<open>self.name_to_info\<close> raises \<^verbatim>\<open>AttributeError\<close> when the attribute was never
  assigned, and an exception of \<^verbatim>\<open>get_country_data\<close> is not caught. The result is
  the state reached and the exception that escapes, if any.
\<close>

definition translate_en :: "environment \<Rightarrow> string \<Rightarrow> app \<Rightarrow> app \<times> exn option" where
  "translate_en env text s =
     (case name_to_info s of
        None \<Rightarrow> (s, Some (AttributeError ''name_to_info''))
      | Some idx \<Rightarrow>
         (case idx text of
            Some info \<Rightarrow>
              (let country = Country info; hid = HID info
               in case get_country_data env country s of
                    (Inl e, s1) \<Rightarrow> (s1, Some e)
                  | (Inr country_data, s1) \<Rightarrow>
                      if truthy country_data then
                        (let entry = dict_get (the country_data) hid Map.empty;
                             translated_name = dict_get entry ''name'' ''Unknown''
                         in (s1\<lparr>output_edit_1 := translated_name\<rparr>, None))
                      else (s1\<lparr>output_edit_1 := DATA_NOT_FOUND\<rparr>, None))
          | None \<Rightarrow> (s\<lparr>output_edit_1 := NO_RESULT\<rparr>, None)))"

text \<open>The second block (Chinese to Korean, lines 353 to 368).\<close>

definition translate_sk :: "environment \<Rightarrow> string \<Rightarrow> app \<Rightarrow> app \<times> exn option" where
  "translate_sk env text s =
     (case sk_name_to_info s of
        None \<Rightarrow> (s, Some (AttributeError ''sk_name_to_info''))
      | Some idx \<Rightarrow>
         (case idx text of
            Some info \<Rightarrow>
              (let country = Country info; hid = HID info
               in case get_sk_country_data env country s of
                    (Inl e, s1) \<Rightarrow> (s1, Some e)
                  | (Inr sk_country_data, s1) \<Rightarrow>
                      if truthy sk_country_data then
                        (let entry = dict_get (the sk_country_data) hid Map.empty;
                             translated_name = dict_get entry ''name'' ''Unknown''
                         in (s1\<lparr>output_edit_2 := translated_name\<rparr>, None))
                      else (s1\<lparr>output_edit_2 := DATA_NOT_FOUND\<rparr>, None))
          | None \<Rightarrow> (s\<lparr>output_edit_2 := NO_RESULT\<rparr>, None)))"

text \<open>
  \<^verbatim>\<open>translate\<close>: the guard on the empty text, then the two blocks in order; an
  exception of the first block leaves the second unexecuted.
\<close>

definition translate :: "environment \<Rightarrow> string \<Rightarrow> app \<Rightarrow> app \<times> exn option" where
  "translate env text s =
     (if text = [] then (s\<lparr>output_edit_1 := [], output_edit_2 := []\<rparr>, None)
      else
        (case translate_en env text s of
           (s1, Some e) \<Rightarrow> (s1, Some e)
         | (s1, None) \<Rightarrow> translate_sk env text s1))"

text \<open>
  \<^verbatim>\<open>check_input\<close>, the timer's slot: translate when the input text has changed.
  \<^verbatim>\<open>last_input\<close> is assigned before \<^verbatim>\<open>translate\<close> is called.
\<close>

definition check_input :: "environment \<Rightarrow> string \<Rightarrow> app \<Rightarrow> app \<times> exn option" where
  "check_input env current_text s =
     (if current_text \<noteq> last_input s
      then translate env current_text (s\<lparr>last_input := current_text\<rparr>)
      else (s, None))"

text \<open>
  The process after start-up: a sequence of timer ticks, each with the files and the
  standard output as they are at that moment and the text of the input field. An exception that escapes the slot
  does not end the event loop; the state it left is the state of the next tick.
\<close>

fun run :: "(environment \<times> string) list \<Rightarrow> app \<Rightarrow> app" where
  "run [] s = s"
| "run ((env, current_text) # ticks) s = run ticks (fst (check_input env current_text s))"

section \<open>Entries of a primary dictionary\<close>

text \<open>
  An item of the dictionary on which the loop body raises no \<^verbatim>\<open>KeyError\<close>: its
  object has the keys \<^verbatim>\<open>Country\<close> and \<^verbatim>\<open>HID\<close>.
\<close>

definition well_formed :: "string \<times> json_obj \<Rightarrow> bool" where
  "well_formed item = (snd item ''Country'' \<noteq> None \<and> snd item ''HID'' \<noteq> None)"

text \<open>The aliases the loop body extracts from an entry object.\<close>

definition aliases_of :: "json_obj \<Rightarrow> string list" where
  "aliases_of info = findall (dict_get info ''exegesis'' [])"

text \<open>
  The keys under which the loop body stores an item: its canonical name and its aliases.
\<close>

definition contributes :: "string \<Rightarrow> string \<times> json_obj \<Rightarrow> bool" where
  "contributes k item = (k = fst item \<or> k \<in> set (aliases_of (snd item)))"

text \<open>The value the loop body stores for a well-formed entry object.\<close>

definition record_of :: "json_obj \<Rightarrow> name_record" where
  "record_of info = \<lparr>Country = the (info ''Country''), HID = the (info ''HID'')\<rparr>"

section \<open>Example data\<close>

text \<open>
  A small installation used to evaluate the program: a dictionary of two characters, the
  first with two aliases, and one country table. ASCII stands in for the Chinese names.
\<close>

definition example_main :: main_data where
  "example_main =
     [(''anbo'', [''Country'' \<mapsto> ''Mondstadt'', ''HID'' \<mapsto> ''1001'',
                  ''exegesis'' \<mapsto> ''scout {tuzi} in red {hongyi}'']),
      (''keqing'', [''Country'' \<mapsto> ''Liyue'', ''HID'' \<mapsto> ''2001''])]"

definition example_table :: table where
  "example_table = [''1001'' \<mapsto> [''name'' \<mapsto> ''Amber'']]"

definition example_files :: environment where
  "example_files =
     \<lparr>read_file =
        (\<lambda>path. if path = ''Database/CsMondstadt.json'' then Parsed example_table else Absent),
      print_raises = (\<lambda>line. None)\<rparr>"

definition no_files :: environment where
  "no_files = \<lparr>read_file = (\<lambda>path. Absent), print_raises = (\<lambda>line. None)\<rparr>"

text \<open>
  Further dictionaries and files for the evaluations: two entries that share an alias; an
  entry whose canonical name is the empty string (a JSON object may have the key
  \<^verbatim>\<open>""\<close>); an entry whose canonical name is an alias of a later entry; country
  files that all hold the empty object; country files that hold a table without the
  HIDs of the dictionary; a dictionary whose second entry lacks \<^verbatim>\<open>Country\<close> and
  \<^verbatim>\<open>HID\<close>; and country files that are not valid JSON, with a standard output
  that cannot encode the Chinese text of the diagnostic line. In the other example
  environments every line can be printed.
\<close>

definition example_collision :: main_data where
  "example_collision =
     [(''anbo'', [''Country'' \<mapsto> ''Mondstadt'', ''HID'' \<mapsto> ''1001'',
                  ''exegesis'' \<mapsto> ''{hongyi}'']),
      (''yanfei'', [''Country'' \<mapsto> ''Liyue'', ''HID'' \<mapsto> ''2002'',
                    ''exegesis'' \<mapsto> ''{hongyi}''])]"

definition example_empty_name :: main_data where
  "example_empty_name =
     [([], [''Country'' \<mapsto> ''Mondstadt'', ''HID'' \<mapsto> ''1001'',
            ''exegesis'' \<mapsto> ''{tuzi}''])]"


definition empty_tables :: environment where
  "empty_tables = \<lparr>read_file = (\<lambda>path. Parsed Map.empty), print_raises = (\<lambda>line. None)\<rparr>"

definition other_table :: table where
  "other_table = [''9999'' \<mapsto> [''name'' \<mapsto> ''Nobody'']]"


definition other_tables :: environment where
  "other_tables = \<lparr>read_file = (\<lambda>path. Parsed other_table), print_raises = (\<lambda>line. None)\<rparr>"

definition ascii_codec_error :: exn where
  "ascii_codec_error =
     UnicodeEncodeError
       (''ascii codec cannot encode characters in position 0-1: ''
          @ ''ordinal not in range(128)'')"

definition unreadable_files :: environment where
  "unreadable_files =
     \<lparr>read_file = (\<lambda>path. Unparsable ''Expecting value: line 1 column 1 (char 0)''),
      print_raises = (\<lambda>line. Some ascii_codec_error)\<rparr>"

section \<open>The loader's loop\<close>

lemma fold_upd_apply:
  "fold (\<lambda>a m. m(a \<mapsto> r)) as m k = (if k \<in> set as then Some r else m k)"
  by (induction as arbitrary: m) auto

lemma load_items_Cons_wf:
  assumes "well_formed (name, info)"
  shows "load_items ((name, info) # items) idx =
    load_items items (fold (\<lambda>a m. m(a \<mapsto> record_of info)) (aliases_of info)
       (idx(name \<mapsto> record_of info)))"
  using assms by (auto simp: well_formed_def record_of_def aliases_of_def Let_def)

lemma load_items_Cons_not_wf:
  assumes "\<not> well_formed (name, info)"
  shows "fst (load_items ((name, info) # items) idx) = idx"
  using assms by (auto simp: well_formed_def split: option.splits)

lemma load_items_not_contributed:
  assumes "\<forall>item \<in> set items. \<not> contributes k item"
  shows "fst (load_items items idx) k = idx k"
  using assms
proof (induction items arbitrary: idx)
  case Nil
  show ?case by simp
next
  case (Cons item items)
  obtain name info where item: "item = (name, info)" by (cases item)
  from Cons.prems have nk: "k \<noteq> name" "k \<notin> set (aliases_of info)"
    and rest: "\<forall>it \<in> set items. \<not> contributes k it"
    by (auto simp: contributes_def item)
  show ?case
  proof (cases "well_formed (name, info)")
    case True
    then show ?thesis
      using Cons.IH [OF rest] nk
      by (simp add: item load_items_Cons_wf fold_upd_apply del: load_items.simps)
  next
    case False
    then show ?thesis
      by (simp add: item load_items_Cons_not_wf del: load_items.simps)
  qed
qed

lemma load_items_append:
  assumes "list_all well_formed xs"
  shows "load_items (xs @ ys) idx = load_items ys (fst (load_items xs idx))"
  using assms
proof (induction xs arbitrary: idx)
  case Nil
  show ?case by simp
next
  case (Cons item xs)
  obtain name info where item: "item = (name, info)" by (cases item)
  from Cons.prems have wf: "well_formed (name, info)" and rest: "list_all well_formed xs"
    by (simp_all add: item)
  show ?case
    using Cons.IH [OF rest] wf by (simp add: item load_items_Cons_wf del: load_items.simps)
qed

lemma load_items_no_exn:
  assumes "list_all well_formed xs"
  shows "snd (load_items xs idx) = None"
  using assms
proof (induction xs arbitrary: idx)
  case Nil
  show ?case by simp
next
  case (Cons item xs)
  obtain name info where item: "item = (name, info)" by (cases item)
  from Cons.prems have wf: "well_formed (name, info)" and rest: "list_all well_formed xs"
    by (simp_all add: item)
  show ?case
    using Cons.IH [OF rest] wf by (simp add: item load_items_Cons_wf del: load_items.simps)
qed

lemma load_items_last_writer:
  assumes wf: "list_all well_formed xs" "well_formed item"
    and c: "contributes k item"
    and later: "\<forall>it \<in> set ys. \<not> contributes k it"
  shows "fst (load_items (xs @ item # ys) idx) k = Some (record_of (snd item))"
proof -
  obtain name info where item: "item = (name, info)" by (cases item)
  let ?idx1 = "fst (load_items xs idx)"
  let ?idx2 = "fold (\<lambda>a m. m(a \<mapsto> record_of info)) (aliases_of info)
       (?idx1(name \<mapsto> record_of info))"
  have "load_items (xs @ item # ys) idx = load_items ys ?idx2"
    using wf by (simp add: load_items_append item load_items_Cons_wf del: load_items.simps)
  then have "fst (load_items (xs @ item # ys) idx) k = ?idx2 k"
    using load_items_not_contributed [OF later] by simp
  also have "\<dots> = Some (record_of info)"
    using c by (auto simp: fold_upd_apply contributes_def item)
  finally show ?thesis by (simp add: item)
qed

section \<open>Frame properties of the lookup code\<close>

lemma get_country_data_sk_fields:
  "sk_name_to_info (snd (get_country_data env c s)) = sk_name_to_info s"
  "sk_country_data_cache (snd (get_country_data env c s)) = sk_country_data_cache s"
  "output_edit_2 (snd (get_country_data env c s)) = output_edit_2 s"
  "output_edit_1 (snd (get_country_data env c s)) = output_edit_1 s"
  "name_to_info (snd (get_country_data env c s)) = name_to_info s"
  by (simp_all add: get_country_data_def Let_def split: option.splits loaded.splits)

lemma get_sk_country_data_fields:
  "name_to_info (snd (get_sk_country_data env c s)) = name_to_info s"
  "sk_name_to_info (snd (get_sk_country_data env c s)) = sk_name_to_info s"
  "country_data_cache (snd (get_sk_country_data env c s)) = country_data_cache s"
  "output_edit_1 (snd (get_sk_country_data env c s)) = output_edit_1 s"
  "output_edit_2 (snd (get_sk_country_data env c s)) = output_edit_2 s"
  by (simp_all add: get_sk_country_data_def Let_def split: option.splits loaded.splits)


lemma translate_en_sk_fields:
  "sk_name_to_info (fst (translate_en env text s)) = sk_name_to_info s"
  "sk_country_data_cache (fst (translate_en env text s)) = sk_country_data_cache s"
  "output_edit_2 (fst (translate_en env text s)) = output_edit_2 s"
  "name_to_info (fst (translate_en env text s)) = name_to_info s"
  by (simp_all add: translate_en_def get_country_data_def Let_def
      split: option.splits loaded.splits)

lemma translate_sk_en_fields:
  "name_to_info (fst (translate_sk env text s)) = name_to_info s"
  "sk_name_to_info (fst (translate_sk env text s)) = sk_name_to_info s"
  "country_data_cache (fst (translate_sk env text s)) = country_data_cache s"
  "output_edit_1 (fst (translate_sk env text s)) = output_edit_1 s"
  by (simp_all add: translate_sk_def get_sk_country_data_def Let_def
      split: option.splits loaded.splits)

lemma translate_en_index_missing:
  assumes "name_to_info s = None"
  shows "translate_en env text s = (s, Some (AttributeError ''name_to_info''))"
  using assms by (simp add: translate_en_def)

lemma translate_output_edit_1:
  assumes "text \<noteq> []"
  shows "output_edit_1 (fst (translate env text s)) =
    output_edit_1 (fst (translate_en env text s))"
  using assms
  by (simp add: translate_def translate_sk_en_fields split: prod.splits option.splits)


lemma translate_sk_output_edit_2:
  "output_edit_2 (fst (translate_sk env text s)) =
     (case sk_name_to_info s of
        None \<Rightarrow> output_edit_2 s
      | Some idx \<Rightarrow>
         (case idx text of
            None \<Rightarrow> NO_RESULT
          | Some info \<Rightarrow>
             (case fst (get_sk_country_data env (Country info) s) of
                Inl e \<Rightarrow> output_edit_2 s
              | Inr sk_country_data \<Rightarrow>
                  if truthy sk_country_data
                  then dict_get (dict_get (the sk_country_data) (HID info) Map.empty)
                         ''name'' ''Unknown''
                  else DATA_NOT_FOUND)))"
proof (cases "sk_name_to_info s")
  case None
  then show ?thesis by (simp add: translate_sk_def)
next
  case (Some idx)
  show ?thesis
  proof (cases "idx text")
    case None
    then show ?thesis using Some by (simp add: translate_sk_def)
  next
    case (Some info)
    obtain r s1 where g: "get_sk_country_data env (Country info) s = (r, s1)"
      by (cases "get_sk_country_data env (Country info) s")
    have "output_edit_2 s1 = output_edit_2 s"
      using get_sk_country_data_fields(5) [of env "Country info" s] g by simp
    then show ?thesis
      using \<open>sk_name_to_info s = Some idx\<close> Some g
      by (simp add: translate_sk_def Let_def split: sum.splits)
  qed
qed


lemma translate_output_edit_2:
  assumes "text \<noteq> []"
  shows "output_edit_2 (fst (translate env text s)) =
    (if snd (translate_en env text s) = None
     then output_edit_2 (fst (translate_sk env text (fst (translate_en env text s))))
     else output_edit_2 s)"
proof (cases "translate_en env text s")
  case (Pair s1 e)
  have "output_edit_2 s1 = output_edit_2 s"
    using translate_en_sk_fields(3) [of env "text" s] Pair by simp
  then show ?thesis
    using assms Pair by (cases e) (simp_all add: translate_def)
qed

section \<open>Cached tables are never dropped\<close>

lemma get_country_data_hit:
  assumes "country_data_cache s c = Some t"
  shows "get_country_data env c s = (Inr (Some t), s)"
  using assms by (simp add: get_country_data_def)

lemma get_country_data_keeps:
  assumes "country_data_cache s c = Some t"
  shows "country_data_cache (snd (get_country_data env c' s)) c = Some t"
  using assms
  by (auto simp: get_country_data_def Let_def split: option.splits loaded.splits)

lemma translate_en_keeps:
  assumes "country_data_cache s c = Some t"
  shows "country_data_cache (fst (translate_en env text s)) c = Some t"
proof (cases "name_to_info s")
  case None
  then show ?thesis using assms by (simp add: translate_en_def)
next
  case (Some idx)
  show ?thesis
  proof (cases "idx text")
    case None
    then show ?thesis using assms Some by (simp add: translate_en_def)
  next
    case (Some info)
    obtain r s1 where g: "get_country_data env (Country info) s = (r, s1)"
      by (cases "get_country_data env (Country info) s")
    have "country_data_cache s1 c = Some t"
      using get_country_data_keeps [OF assms, of env "Country info"] g by simp
    then show ?thesis
      using \<open>name_to_info s = Some idx\<close> Some g
      by (simp add: translate_en_def Let_def split: sum.splits)
  qed
qed

lemma translate_keeps:
  assumes "country_data_cache s c = Some t"
  shows "country_data_cache (fst (translate env text s)) c = Some t"
proof (cases "text = []")
  case True
  then show ?thesis using assms by (simp add: translate_def)
next
  case False
  obtain s1 e where en: "translate_en env text s = (s1, e)"
    by (cases "translate_en env text s")
  have s1: "country_data_cache s1 c = Some t"
    using translate_en_keeps [OF assms, of env "text"] en by simp
  show ?thesis
  proof (cases e)
    case None
    then show ?thesis
      using False en s1 by (simp add: translate_def translate_sk_en_fields)
  next
    case (Some x)
    then show ?thesis
      using False en s1 by (simp add: translate_def)
  qed
qed

lemma check_input_keeps:
  assumes "country_data_cache s c = Some t"
  shows "country_data_cache (fst (check_input env current_text s)) c = Some t"
  using assms translate_keeps [of "s\<lparr>last_input := current_text\<rparr>" c t env current_text]
  by (simp add: check_input_def)

lemma run_keeps:
  assumes "country_data_cache s c = Some t"
  shows "country_data_cache (run ticks s) c = Some t"
  using assms
proof (induction ticks arbitrary: s)
  case Nil
  then show ?case by simp
next
  case (Cons tick ticks)
  obtain env x where tick: "tick = (env, x)" by (cases tick)
  show ?case
    using Cons.IH [OF check_input_keeps [OF Cons.prems, of env x]] by (simp add: tick)
qed

section \<open>Further facts about the loaders and \<^verbatim>\<open>translate\<close>\<close>


lemma load_main_data_Parsed:
  "name_to_info (load_main_data (Parsed main_data) s) = Some (fst (load_items main_data Map.empty))"
  by (simp add: load_main_data_def split: prod.splits option.splits)

lemma load_sk_main_data_Parsed:
  "sk_name_to_info (load_sk_main_data (Parsed main_data) s) = Some (fst (load_items main_data Map.empty))"
  by (simp add: load_sk_main_data_def split: prod.splits option.splits)

lemma load_main_data_silent:
  assumes "list_all well_formed main_data"
  shows "load_main_data (Parsed main_data) s =
    s\<lparr>name_to_info := Some (fst (load_items main_data Map.empty))\<rparr>"
proof (cases "load_items main_data Map.empty")
  case (Pair idx e)
  then have "e = None"
    using load_items_no_exn [OF assms, of Map.empty] by simp
  then show ?thesis
    using Pair by (simp add: load_main_data_def)
qed

lemma init_index_missing:
  "name_to_info (init Absent sk_main_file) = None"
  "name_to_info (init (Unparsable msg) sk_main_file) = None"
  by (simp_all add: init_def load_main_data_def load_sk_main_data_def initUI_def
      split: loaded.splits prod.splits option.splits)

lemma init_fields:
  "name_to_info (init (Parsed main_data) sk_main_file) =
     Some (fst (load_items main_data Map.empty))"
  "country_data_cache (init main_file sk_main_file) = Map.empty"
  "sk_country_data_cache (init main_file sk_main_file) = Map.empty"
  "sk_name_to_info (init main_file (Parsed sk_main_data)) =
     Some (fst (load_items sk_main_data Map.empty))"
  by (simp_all add: init_def load_main_data_def load_sk_main_data_def initUI_def
      split: loaded.splits prod.splits option.splits)

lemma translate_after_en:
  assumes "text \<noteq> []" and "translate_en env text s = (s1, None)"
  shows "translate env text s = translate_sk env text s1"
  using assms by (simp add: translate_def)

lemma translate_en_Some:
  assumes "name_to_info s = Some idx" and "idx text = Some info"
    and "get_country_data env (Country info) s = (Inr (Some t), s1)" and "t \<noteq> Map.empty"
  shows "translate_en env text s =
    (s1\<lparr>output_edit_1 := dict_get (dict_get t (HID info) Map.empty) ''name'' ''Unknown''\<rparr>, None)"
  using assms by (simp add: translate_en_def truthy_def)

lemma translate_en_returns:
  assumes "name_to_info s = Some idx" and "idx text = Some info"
    and "get_country_data env (Country info) s = (Inr country_data, s1)"
  shows "snd (translate_en env text s) = None"
  using assms by (simp add: translate_en_def)



section \<open>The example installation, evaluated\<close>

lemma example_main_index:
  "fst (load_items example_main Map.empty) ''anbo'' = Some \<lparr>Country = ''Mondstadt'', HID = ''1001''\<rparr>"
  "fst (load_items example_main Map.empty) ''tuzi'' = Some \<lparr>Country = ''Mondstadt'', HID = ''1001''\<rparr>"
  "fst (load_items example_main Map.empty) ''keqing'' = Some \<lparr>Country = ''Liyue'', HID = ''2001''\<rparr>"
  "fst (load_items example_main Map.empty) ''hongyi'' = Some \<lparr>Country = ''Mondstadt'', HID = ''1001''\<rparr>"
  by (simp_all add: example_main_def dict_get_def)

lemma example_empty_name_index:
  "fst (load_items example_empty_name Map.empty) [] = Some \<lparr>Country = ''Mondstadt'', HID = ''1001''\<rparr>"
  "fst (load_items example_empty_name Map.empty) ''tuzi'' = Some \<lparr>Country = ''Mondstadt'', HID = ''1001''\<rparr>"
  by (simp_all add: example_empty_name_def dict_get_def)

lemma example_after_anbo:
  "name_to_info (run [(example_files, ''anbo'')] (init (Parsed example_main) (Parsed []))) =
     Some (fst (load_items example_main Map.empty))"
  "country_data_cache (run [(example_files, ''anbo'')] (init (Parsed example_main) (Parsed [])))
     ''Mondstadt'' = Some example_table"
proof -
  let ?start = "init (Parsed example_main) (Parsed [])"
  let ?typed = "?start\<lparr>last_input := ''anbo''\<rparr>"
  let ?s = "run [(example_files, ''anbo'')] ?start"
  have last: "last_input ?start = []"
    by (simp add: init_def)
  have idx0: "name_to_info ?typed = Some (fst (load_items example_main Map.empty))"
    by (simp add: init_fields)
  have c0: "country_data_cache ?typed ''Mondstadt'' = None"
    by (simp add: init_fields)
  have g: "get_country_data example_files ''Mondstadt'' ?typed =
      (Inr (Some example_table), ?typed\<lparr>country_data_cache := [''Mondstadt'' \<mapsto> example_table]\<rparr>)"
    using c0 by (simp add: get_country_data_def example_files_def file_path_def init_fields)
  have run: "?s = fst (translate example_files ''anbo'' ?typed)"
    using last by (simp add: check_input_def)
  obtain s1 where en: "translate_en example_files ''anbo'' ?typed = (s1, None)"
    using translate_en_returns [OF idx0 example_main_index(1), of example_files] g
    by (cases "translate_en example_files ''anbo'' ?typed") simp
  have s1_idx: "name_to_info s1 = Some (fst (load_items example_main Map.empty))"
    using translate_en_sk_fields(4) [of example_files "''anbo''" ?typed] en idx0 by simp
  have "country_data_cache (fst (translate_en example_files ''anbo'' ?typed)) ''Mondstadt'' =
      Some example_table"
    using idx0 g by (simp add: translate_en_def example_main_index truthy_def example_table_def)
  then have s1_cache: "country_data_cache s1 ''Mondstadt'' = Some example_table"
    using en by simp
  have s: "?s = fst (translate_sk example_files ''anbo'' s1)"
    unfolding run using en by (simp add: translate_def)
  show "name_to_info ?s = Some (fst (load_items example_main Map.empty))"
    unfolding s using s1_idx by (simp add: translate_sk_en_fields)
  show "country_data_cache ?s ''Mondstadt'' = Some example_table"
    unfolding s using s1_cache by (simp add: translate_sk_en_fields)
qed

lemma example_empty_tables_anbo:
  "translate_en empty_tables ''anbo'' (init (Parsed example_main) (Parsed [])) =
     ((init (Parsed example_main) (Parsed []))
        \<lparr>country_data_cache := [''Mondstadt'' \<mapsto> Map.empty],
         output_edit_1 := DATA_NOT_FOUND\<rparr>, None)"
  by (simp add: translate_en_def init_fields example_main_index get_country_data_def
      empty_tables_def truthy_def)


section \<open>The claims about loading the dictionaries\<close>

text \<open>
  Claim C1 (the code departs from it). If the first primary dictionary file is missing
  or is not valid JSON, \<^verbatim>\<open>load_main_data\<close> shows the error text in the first result
  field, and the claim goes on: the alias index is left empty and every later
  \<^verbatim>\<open>translate\<close> reports the sentinel. The code does the first and not the second:
  \<^verbatim>\<open>self.name_to_info = {}\<close> stands behind the statements that raise, so the
  attribute is never assigned, and \<^verbatim>\<open>translate\<close> on any non-empty text raises
  \<^verbatim>\<open>AttributeError\<close> at its first test, whatever the files and the second dictionary
  are; no result field is written.
\<close>

theorem missing_dictionary_leaves_index_unassigned:
  "name_to_info (init Absent sk_main_file) = None \<and>
   name_to_info (init (Unparsable msg) sk_main_file) = None \<and>
   output_edit_1 (init Absent sk_main_file) =
     LOAD_ONE_FAILED @ str_FileNotFoundError MAIN_PATH \<and>
   output_edit_1 (init (Unparsable msg) sk_main_file) = LOAD_ONE_FAILED @ msg \<and>
   translate env (c # cs) (init Absent sk_main_file) =
     (init Absent sk_main_file, Some (AttributeError ''name_to_info'')) \<and>
   translate env (c # cs) (init (Unparsable msg) sk_main_file) =
     (init (Unparsable msg) sk_main_file, Some (AttributeError ''name_to_info''))"
proof -
  have out1: "output_edit_1 (init Absent sk_main_file) =
      LOAD_ONE_FAILED @ str_FileNotFoundError MAIN_PATH"
    by (simp add: init_def load_main_data_def load_sk_main_data_def initUI_def
        split: loaded.splits prod.splits option.splits)
  have out2: "output_edit_1 (init (Unparsable msg) sk_main_file) = LOAD_ONE_FAILED @ msg"
    by (simp add: init_def load_main_data_def load_sk_main_data_def initUI_def
        split: loaded.splits prod.splits option.splits)
  have raise: "translate env (c # cs) s = (s, Some (AttributeError ''name_to_info''))"
    if "name_to_info s = None" for s
    using that by (simp add: translate_def translate_en_def)
  show ?thesis
    using out1 out2 raise [OF init_index_missing(1)] raise [OF init_index_missing(2)]
    by (simp add: init_index_missing)
qed

text \<open>
  The other way a dictionary can be malformed: it parses, but an entry lacks a key. The
  loop then stops at that entry, and the entries before it stay in the index.
\<close>

lemma load_main_data_partial:
  "name_to_info (load_main_data
     (Parsed [(''anbo'', [''Country'' \<mapsto> ''Mondstadt'', ''HID'' \<mapsto> ''1001'']),
              (''keqing'', [''Country'' \<mapsto> ''Liyue''])]) initUI) =
     Some [''anbo'' \<mapsto> \<lparr>Country = ''Mondstadt'', HID = ''1001''\<rparr>] \<and>
   output_edit_1 (load_main_data
     (Parsed [(''anbo'', [''Country'' \<mapsto> ''Mondstadt'', ''HID'' \<mapsto> ''1001'']),
              (''keqing'', [''Country'' \<mapsto> ''Liyue''])]) initUI) =
     LOAD_ONE_FAILED @ str_KeyError ''HID''"
  by (simp add: load_main_data_def dict_get_def initUI_def)

text \<open>
  Claim C6. When two items of the source dictionary contribute the same key, and the
  later of the two is the last item to contribute it, the index maps the key to the
  later item's \<^verbatim>\<open>Country\<close> and \<^verbatim>\<open>HID\<close>. The items up to the later one are
  well-formed (the loop reaches it); when the rest is well-formed too, the load changes
  nothing but the index: no error text is shown.
\<close>

theorem later_entry_overwrites_earlier:
  assumes "main_data = xs @ (name1, info1) # ys @ (name2, info2) # zs"
    and "list_all well_formed (xs @ (name1, info1) # ys)"
    and "info2 ''Country'' = Some country2" and "info2 ''HID'' = Some hid2"
    and "contributes k (name1, info1)" and "contributes k (name2, info2)"
    and "\<forall>item \<in> set zs. \<not> contributes k item"
  shows "fst (load_items main_data Map.empty) k = Some \<lparr>Country = country2, HID = hid2\<rparr> \<and>
     name_to_info (load_main_data (Parsed main_data) s) =
       Some (fst (load_items main_data Map.empty)) \<and>
     (list_all well_formed zs \<longrightarrow>
        load_main_data (Parsed main_data) s =
          s\<lparr>name_to_info := Some (fst (load_items main_data Map.empty))\<rparr>)"
proof (intro conjI impI)
  have wf2: "well_formed (name2, info2)"
    using assms(3,4) by (simp add: well_formed_def)
  have decomp: "main_data = (xs @ (name1, info1) # ys) @ (name2, info2) # zs"
    using assms(1) by simp
  have "fst (load_items main_data Map.empty) k = Some (record_of (snd (name2, info2)))"
    unfolding decomp
    using assms(2) wf2 assms(6,7) by (rule load_items_last_writer)
  then show "fst (load_items main_data Map.empty) k = Some \<lparr>Country = country2, HID = hid2\<rparr>"
    using assms(3,4) by (simp add: record_of_def)
  show "name_to_info (load_main_data (Parsed main_data) s) =
       Some (fst (load_items main_data Map.empty))"
    by (rule load_main_data_Parsed)
  assume "list_all well_formed zs"
  then have "list_all well_formed main_data"
    using assms(2) wf2 by (simp add: decomp del: append_assoc)
  then show "load_main_data (Parsed main_data) s =
          s\<lparr>name_to_info := Some (fst (load_items main_data Map.empty))\<rparr>"
    by (rule load_main_data_silent)
qed

theorem later_entry_overwrites_earlier_witness:
  "contributes ''hongyi'' (example_collision ! 0) \<and>
   contributes ''hongyi'' (example_collision ! 1) \<and>
   list_all well_formed example_collision \<and>
   fst (load_items example_collision Map.empty) ''hongyi'' =
     Some \<lparr>Country = ''Liyue'', HID = ''2002''\<rparr> \<and>
   load_main_data (Parsed example_collision) initUI =
     initUI\<lparr>name_to_info := Some (fst (load_items example_collision Map.empty))\<rparr>"
proof -
  let ?info1 = "[''Country'' \<mapsto> ''Mondstadt'', ''HID'' \<mapsto> ''1001'',
                  ''exegesis'' \<mapsto> ''{hongyi}'']"
  let ?info2 = "[''Country'' \<mapsto> ''Liyue'', ''HID'' \<mapsto> ''2002'',
                    ''exegesis'' \<mapsto> ''{hongyi}'']"
  have a1: "example_collision = [] @ (''anbo'', ?info1) # [] @ (''yanfei'', ?info2) # []"
    by (simp add: example_collision_def)
  have a2: "list_all well_formed ([] @ (''anbo'', ?info1) # [])"
    by (simp add: well_formed_def)
  have a3: "?info2 ''Country'' = Some ''Liyue''" by simp
  have a4: "?info2 ''HID'' = Some ''2002''" by simp
  have a5: "contributes ''hongyi'' (''anbo'', ?info1)"
    by (simp add: contributes_def aliases_of_def dict_get_def)
  have a6: "contributes ''hongyi'' (''yanfei'', ?info2)"
    by (simp add: contributes_def aliases_of_def dict_get_def)
  have a7: "\<forall>item \<in> set []. \<not> contributes ''hongyi'' item" by simp
  have a8: "list_all well_formed ([] :: main_data)" by simp
  have wf: "list_all well_formed example_collision"
    by (simp add: example_collision_def well_formed_def)
  note inst = later_entry_overwrites_earlier [OF a1 a2 a3 a4 a5 a6 a7, where s = initUI]
  show ?thesis
    using inst a5 a6 a8 wf by (simp add: example_collision_def)
qed




section \<open>The claims about the cache\<close>

text \<open>
  Claim C4. For a country code that is a key of the cache, \<^verbatim>\<open>get_country_data\<close>
  returns the cached table and leaves the state as it is, whatever the files hold at that
  moment: the file is not read. And once a call has returned a table, every later call
  for that code returns this table, after any number of timer ticks and whatever the
  files have become.
\<close>

theorem cached_table_is_returned_without_reading:
  "(country_data_cache s c = Some t \<longrightarrow> get_country_data env c s = (Inr (Some t), s)) \<and>
   (get_country_data env c s = (Inr (Some t), s1) \<longrightarrow>
      get_country_data env' c (run ticks s1) = (Inr (Some t), run ticks s1))"
proof (intro conjI impI)
  assume "country_data_cache s c = Some t"
  then show "get_country_data env c s = (Inr (Some t), s)"
    by (rule get_country_data_hit)
next
  assume g: "get_country_data env c s = (Inr (Some t), s1)"
  have "country_data_cache s1 c = Some t"
    using g
    by (auto simp: get_country_data_def Let_def split: option.splits loaded.splits)
  then have "country_data_cache (run ticks s1) c = Some t"
    by (rule run_keeps)
  then show "get_country_data env' c (run ticks s1) = (Inr (Some t), run ticks s1)"
    by (rule get_country_data_hit)
qed

theorem cached_table_is_returned_without_reading_witness:
  "country_data_cache (initUI\<lparr>country_data_cache := [''Mondstadt'' \<mapsto> example_table]\<rparr>)
      ''Mondstadt'' = Some example_table \<and>
   get_country_data no_files ''Mondstadt''
      (initUI\<lparr>country_data_cache := [''Mondstadt'' \<mapsto> example_table]\<rparr>) =
     (Inr (Some example_table), initUI\<lparr>country_data_cache := [''Mondstadt'' \<mapsto> example_table]\<rparr>) \<and>
   get_country_data example_files ''Mondstadt'' initUI =
     (Inr (Some example_table), initUI\<lparr>country_data_cache := [''Mondstadt'' \<mapsto> example_table]\<rparr>) \<and>
   get_country_data no_files ''Mondstadt''
      (run [(no_files, ''anbo''), (no_files, [])]
         (initUI\<lparr>country_data_cache := [''Mondstadt'' \<mapsto> example_table]\<rparr>)) =
     (Inr (Some example_table),
      run [(no_files, ''anbo''), (no_files, [])]
        (initUI\<lparr>country_data_cache := [''Mondstadt'' \<mapsto> example_table]\<rparr>))"
proof -
  let ?s1 = "initUI\<lparr>country_data_cache := [''Mondstadt'' \<mapsto> example_table]\<rparr>"
  let ?ticks = "[(no_files, ''anbo''), (no_files, [])]"
  have cached: "country_data_cache ?s1 ''Mondstadt'' = Some example_table"
    by simp
  have loaded: "get_country_data example_files ''Mondstadt'' initUI = (Inr (Some example_table), ?s1)"
    by (simp add: get_country_data_def initUI_def example_files_def file_path_def)
  have hit: "get_country_data no_files ''Mondstadt'' ?s1 = (Inr (Some example_table), ?s1)"
    using cached
      cached_table_is_returned_without_reading
        [where s = ?s1 and c = "''Mondstadt''" and t = example_table and env = no_files]
    by blast
  have later: "get_country_data no_files ''Mondstadt'' (run ?ticks ?s1) =
      (Inr (Some example_table), run ?ticks ?s1)"
    using loaded
      cached_table_is_returned_without_reading
        [where s = initUI and c = "''Mondstadt''" and t = example_table
           and env = example_files and ?s1.0 = ?s1 and env' = no_files and ticks = ?ticks]
    by blast
  show ?thesis
    using cached loaded hit later by (intro conjI)
qed

text \<open>
  What \<^verbatim>\<open>get_country_data\<close> does on a miss whose file is absent, or cannot be read
  and parsed while the diagnostic line can be printed: it returns \<^verbatim>\<open>None\<close> and the
  cache is what it was. A call on a miss whose file parses returns the file's table, so
  after a failed lookup the next call reads the file again.
\<close>

lemma get_country_data_miss:
  assumes "country_data_cache s c = None"
    and "read_file env (file_path c) = Absent \<or>
         (read_file env (file_path c) = Unparsable msg \<and>
          print_raises env (LOAD @ ''['' @ c @ '']'' @ DATA_EXCEPTION @ msg) = None)"
  shows "fst (get_country_data env c s) = Inr None"
    and "country_data_cache (snd (get_country_data env c s)) = country_data_cache s"
  using assms by (auto simp: get_country_data_def)

lemma get_country_data_reads_on_miss:
  assumes "country_data_cache s c = None"
  shows "fst (get_country_data env c s) =
    (case read_file env (file_path c) of
       Parsed data \<Rightarrow> Inr (Some data)
     | Absent \<Rightarrow> Inr None
     | Unparsable msg \<Rightarrow>
         (case print_raises env (LOAD @ ''['' @ c @ '']'' @ DATA_EXCEPTION @ msg) of
            None \<Rightarrow> Inr None | Some e \<Rightarrow> Inl e))"
  using assms by (simp add: get_country_data_def Let_def split: loaded.splits option.splits)

text \<open>
  Claim C5 (the code departs from it). For a country code whose lookup fails because the
  file is absent or unparsable, the claim promises that the cache returns NotFound with
  its state unchanged. On the unparsable path the handler of \<^verbatim>\<open>get_country_data\<close>
  first prints a line holding Chinese text, and the \<^verbatim>\<open>print\<close> is not guarded: on a
  standard output that cannot encode the line it raises, and the exception leaves
  \<^verbatim>\<open>get_country_data\<close> in place of the \<^verbatim>\<open>None\<close> of the \<^verbatim>\<open>return\<close> behind
  it. The cache is unchanged, as claimed, but nothing is returned; in
  \<^verbatim>\<open>translate\<close> the exception escapes as well and the result field keeps its text,
  where an unavailable table should give the sentinel.
\<close>

theorem unprintable_diagnostic_escapes_get_country_data:
  "get_country_data \<lparr>read_file = (\<lambda>path. Unparsable msg), print_raises = (\<lambda>line. Some e)\<rparr> c
      (s\<lparr>country_data_cache := Map.empty\<rparr>) =
     (Inl e, s\<lparr>country_data_cache := Map.empty\<rparr>) \<and>
   translate unreadable_files ''anbo'' (init (Parsed example_main) (Parsed [])) =
     (init (Parsed example_main) (Parsed []), Some ascii_codec_error) \<and>
   output_edit_1 (init (Parsed example_main) (Parsed [])) = [] \<and>
   [] \<noteq> DATA_NOT_FOUND"
proof -
  let ?s = "init (Parsed example_main) (Parsed [])"
  have g: "get_country_data unreadable_files ''Mondstadt'' ?s = (Inl ascii_codec_error, ?s)"
    by (simp add: get_country_data_def init_fields unreadable_files_def)
  have "translate_en unreadable_files ''anbo'' ?s = (?s, Some ascii_codec_error)"
    using g by (simp add: translate_en_def init_fields example_main_index)
  then have t: "translate unreadable_files ''anbo'' ?s = (?s, Some ascii_codec_error)"
    by (simp add: translate_def)
  have o: "output_edit_1 ?s = []"
    by (simp add: init_def load_main_data_def load_sk_main_data_def initUI_def
        example_main_def dict_get_def)
  show ?thesis
    using t o by (simp add: get_country_data_def DATA_NOT_FOUND_def)
qed

section \<open>The claims about \<^verbatim>\<open>translate\<close>\<close>

text \<open>
  Claim C8. On the empty text \<^verbatim>\<open>translate\<close> sets both result fields to the empty
  string and returns: the rest of the state is untouched, and neither the files nor the
  indexes are consulted (the equation holds for every state, also one whose index
  attributes are missing, where any lookup would raise).
\<close>

theorem translate_empty_text:
  "translate env [] s = (s\<lparr>output_edit_1 := [], output_edit_2 := []\<rparr>, None)"
  by (simp add: translate_def)

text \<open>
  What \<^verbatim>\<open>translate\<close> shows for a text that is not in a track's index, where the
  code reaches the test: the first track needs its own index to exist, the second track
  needs its index and a first block that raises nothing.
\<close>

lemma translate_no_result_en:
  assumes "text \<noteq> []" and "name_to_info s = Some idx" and "idx text = None"
  shows "output_edit_1 (fst (translate env text s)) = NO_RESULT"
  using assms by (simp add: translate_output_edit_1 translate_en_def)

lemma translate_no_result_sk:
  assumes "text \<noteq> []" and "snd (translate_en env text s) = None"
    and "sk_name_to_info s = Some idx" and "idx text = None"
  shows "output_edit_2 (fst (translate env text s)) = NO_RESULT"
  using assms
  by (simp add: translate_output_edit_2 translate_sk_output_edit_2 translate_en_sk_fields)

text \<open>
  Claim C9 (the code departs from it). For a non-empty text that is not in a track's
  index, the claim promises the sentinel \<^verbatim>\<open>"no translation result"\<close> in that track's
  field. With the first dictionary missing and the second loaded (here: the empty
  object), the second index exists and holds no text; yet \<^verbatim>\<open>translate\<close> raises
  \<^verbatim>\<open>AttributeError\<close> in its first block and never reaches the second: the second
  field keeps the empty string. This is the defect of claim C1 seen from the second
  track.
\<close>

theorem second_track_sentinel_lost_when_first_index_unassigned:
  "sk_name_to_info (init Absent (Parsed [])) = Some Map.empty \<and>
   translate env (c # cs) (init Absent (Parsed [])) =
     (init Absent (Parsed []), Some (AttributeError ''name_to_info'')) \<and>
   output_edit_2 (fst (translate env (c # cs) (init Absent (Parsed [])))) = [] \<and>
   NO_RESULT \<noteq> []"
proof -
  have sk: "sk_name_to_info (init Absent (Parsed [])) = Some Map.empty"
    by (simp add: init_def load_main_data_def load_sk_main_data_def initUI_def)
  have out: "output_edit_2 (init Absent (Parsed [])) = []"
    by (simp add: init_def load_main_data_def load_sk_main_data_def initUI_def)
  have raise: "translate env (c # cs) (init Absent (Parsed [])) =
     (init Absent (Parsed []), Some (AttributeError ''name_to_info''))"
    by (simp add: translate_def translate_en_def init_index_missing)
  show ?thesis
    using sk out raise by (simp add: NO_RESULT_def)
qed

text \<open>
  Claim C3, amended. For a non-empty text that is in the first index, whose country has
  no table in the cache and whose table file is absent: \<^verbatim>\<open>get_country_data\<close> returns
  \<^verbatim>\<open>None\<close> and leaves the state as it is, the first block of \<^verbatim>\<open>translate\<close> raises
  nothing and writes the sentinel \<^verbatim>\<open>"translation data not found"\<close> to the first
  field, and \<^verbatim>\<open>translate\<close> goes on with its second block, which does not touch that
  field.
\<close>

theorem absent_table_gives_data_not_found:
  assumes "text \<noteq> []" and "name_to_info s = Some idx" and "idx text = Some info"
    and "country_data_cache s (Country info) = None"
    and "read_file env (file_path (Country info)) = Absent"
  shows "get_country_data env (Country info) s = (Inr None, s) \<and>
     translate_en env text s = (s\<lparr>output_edit_1 := DATA_NOT_FOUND\<rparr>, None) \<and>
     translate env text s = translate_sk env text (s\<lparr>output_edit_1 := DATA_NOT_FOUND\<rparr>) \<and>
     output_edit_1 (fst (translate env text s)) = DATA_NOT_FOUND"
proof -
  have g: "get_country_data env (Country info) s = (Inr None, s)"
    using assms(4,5) by (simp add: get_country_data_def)
  have en: "translate_en env text s = (s\<lparr>output_edit_1 := DATA_NOT_FOUND\<rparr>, None)"
    using assms(2,3) g by (simp add: translate_en_def truthy_def)
  have tr: "translate env text s = translate_sk env text (s\<lparr>output_edit_1 := DATA_NOT_FOUND\<rparr>)"
    using assms(1) en by (rule translate_after_en)
  have "output_edit_1 (fst (translate env text s)) = DATA_NOT_FOUND"
    using assms(1) en by (simp add: translate_output_edit_1)
  with g en tr show ?thesis by simp
qed

theorem absent_table_gives_data_not_found_witness:
  "name_to_info (init (Parsed example_main) (Parsed example_main)) =
     Some (fst (load_items example_main Map.empty)) \<and>
   fst (load_items example_main Map.empty) ''keqing'' =
     Some \<lparr>Country = ''Liyue'', HID = ''2001''\<rparr> \<and>
   country_data_cache (init (Parsed example_main) (Parsed example_main)) ''Liyue'' = None \<and>
   read_file example_files (file_path ''Liyue'') = Absent \<and>
   output_edit_1 (fst (translate example_files ''keqing''
     (init (Parsed example_main) (Parsed example_main)))) = DATA_NOT_FOUND"
proof -
  let ?s = "init (Parsed example_main) (Parsed example_main)"
  let ?info = "\<lparr>Country = ''Liyue'', HID = ''2001''\<rparr>"
  have h1: "''keqing'' \<noteq> []" by simp
  have h2: "name_to_info ?s = Some (fst (load_items example_main Map.empty))"
    by (rule init_fields)
  have h3: "fst (load_items example_main Map.empty) ''keqing'' = Some ?info"
    by (rule example_main_index)
  have h4: "country_data_cache ?s ''Liyue'' = None"
    by (simp add: init_fields)
  have h5: "read_file example_files (file_path ''Liyue'') = Absent"
    by (simp add: example_files_def file_path_def)
  have h4': "country_data_cache ?s (Country ?info) = None"
    using h4 by simp
  have h5': "read_file example_files (file_path (Country ?info)) = Absent"
    using h5 by simp
  have "output_edit_1 (fst (translate example_files ''keqing'' ?s)) = DATA_NOT_FOUND"
    using absent_table_gives_data_not_found
        [where s = ?s and idx = "fst (load_items example_main Map.empty)"
           and info = ?info and env = example_files, OF h1 h2 h3 h4' h5']
    by blast
  with h2 h3 h4 h5 show ?thesis
    by (intro conjI)
qed

text \<open>
  The claim as stated fails in two ways. A dictionary may hold the empty string as a
  name: the guard on the empty text clears the fields before any lookup. And a table
  cached while its file existed is still used after the file has gone: the cache is never
  refreshed.
\<close>

theorem absent_table_gives_data_not_found_counterexample:
  "name_to_info (init (Parsed example_empty_name) (Parsed [])) =
     Some (fst (load_items example_empty_name Map.empty)) \<and>
   fst (load_items example_empty_name Map.empty) [] =
     Some \<lparr>Country = ''Mondstadt'', HID = ''1001''\<rparr> \<and>
   read_file no_files (file_path ''Mondstadt'') = Absent \<and>
   output_edit_1 (fst (translate no_files []
     (init (Parsed example_empty_name) (Parsed [])))) = [] \<and>
   [] \<noteq> DATA_NOT_FOUND \<and>
   name_to_info (run [(example_files, ''anbo'')] (init (Parsed example_main) (Parsed []))) =
     Some (fst (load_items example_main Map.empty)) \<and>
   fst (load_items example_main Map.empty) ''tuzi'' =
     Some \<lparr>Country = ''Mondstadt'', HID = ''1001''\<rparr> \<and>
   output_edit_1 (fst (translate no_files ''tuzi''
     (run [(example_files, ''anbo'')] (init (Parsed example_main) (Parsed []))))) = ''Amber'' \<and>
   ''Amber'' \<noteq> DATA_NOT_FOUND"
proof -
  let ?s = "run [(example_files, ''anbo'')] (init (Parsed example_main) (Parsed []))"
  have e: "output_edit_1 (fst (translate no_files []
     (init (Parsed example_empty_name) (Parsed [])))) = []"
    by (simp add: translate_def)
  have hit: "get_country_data no_files ''Mondstadt'' ?s = (Inr (Some example_table), ?s)"
    using example_after_anbo(2) by (rule get_country_data_hit)
  have "translate_en no_files ''tuzi'' ?s = (?s\<lparr>output_edit_1 := ''Amber''\<rparr>, None)"
    using example_after_anbo(1) hit
    by (simp add: translate_en_def example_main_index truthy_def example_table_def dict_get_def)
  then have stale: "output_edit_1 (fst (translate no_files ''tuzi'' ?s)) = ''Amber''"
    by (simp add: translate_output_edit_1)
  show ?thesis
    using e stale example_after_anbo(1)
    by (simp add: init_fields example_main_index example_empty_name_index no_files_def
        DATA_NOT_FOUND_def)
qed

text \<open>
  Claim C7, amended. For a non-empty text that is in the first index, whose country's
  table is available (cached or just loaded) and is not empty, and whose HID is not a key
  of the table: \<^verbatim>\<open>translate\<close> writes the literal \<^verbatim>\<open>Unknown\<close> to the first field.
\<close>

theorem missing_hid_gives_Unknown:
  assumes "text \<noteq> []" and "name_to_info s = Some idx" and "idx text = Some info"
    and "get_country_data env (Country info) s = (Inr (Some t), s1)"
    and "t \<noteq> Map.empty" and "t (HID info) = None"
  shows "translate_en env text s = (s1\<lparr>output_edit_1 := ''Unknown''\<rparr>, None) \<and>
     translate env text s = translate_sk env text (s1\<lparr>output_edit_1 := ''Unknown''\<rparr>) \<and>
     output_edit_1 (fst (translate env text s)) = ''Unknown''"
proof -
  have en: "translate_en env text s = (s1\<lparr>output_edit_1 := ''Unknown''\<rparr>, None)"
    using assms(2-6) by (simp add: translate_en_def truthy_def dict_get_def)
  have tr: "translate env text s = translate_sk env text (s1\<lparr>output_edit_1 := ''Unknown''\<rparr>)"
    using assms(1) en by (rule translate_after_en)
  have "output_edit_1 (fst (translate env text s)) = ''Unknown''"
    using assms(1) en by (simp add: translate_output_edit_1)
  with en tr show ?thesis by simp
qed

theorem missing_hid_gives_Unknown_witness:
  "name_to_info (init (Parsed example_main) (Parsed [])) =
     Some (fst (load_items example_main Map.empty)) \<and>
   fst (load_items example_main Map.empty) ''keqing'' =
     Some \<lparr>Country = ''Liyue'', HID = ''2001''\<rparr> \<and>
   fst (get_country_data other_tables ''Liyue'' (init (Parsed example_main) (Parsed []))) =
     Inr (Some other_table) \<and>
   other_table \<noteq> Map.empty \<and> other_table ''2001'' = None \<and>
   output_edit_1 (fst (translate other_tables ''keqing''
     (init (Parsed example_main) (Parsed [])))) = ''Unknown''"
proof -
  let ?s = "init (Parsed example_main) (Parsed [])"
  let ?info = "\<lparr>Country = ''Liyue'', HID = ''2001''\<rparr>"
  let ?s1 = "?s\<lparr>country_data_cache := [''Liyue'' \<mapsto> other_table]\<rparr>"
  have h1: "''keqing'' \<noteq> []" by simp
  have h2: "name_to_info ?s = Some (fst (load_items example_main Map.empty))"
    by (rule init_fields)
  have h3: "fst (load_items example_main Map.empty) ''keqing'' = Some ?info"
    by (rule example_main_index)
  have g: "get_country_data other_tables ''Liyue'' ?s = (Inr (Some other_table), ?s1)"
    by (simp add: get_country_data_def init_fields other_tables_def)
  have h4: "get_country_data other_tables (Country ?info) ?s = (Inr (Some other_table), ?s1)"
    using g by simp
  have h5: "other_table \<noteq> Map.empty"
    by (simp add: other_table_def)
  have h6: "other_table ''2001'' = None"
    by (simp add: other_table_def)
  have h6': "other_table (HID ?info) = None"
    using h6 by simp
  have "output_edit_1 (fst (translate other_tables ''keqing'' ?s)) = ''Unknown''"
    using missing_hid_gives_Unknown
        [where s = ?s and idx = "fst (load_items example_main Map.empty)"
           and info = ?info and env = other_tables and t = other_table and ?s1.0 = ?s1,
         OF h1 h2 h3 h4 h5 h6']
    by blast
  moreover have "fst (get_country_data other_tables ''Liyue'' ?s) = Inr (Some other_table)"
    using g by simp
  ultimately show ?thesis
    using h2 h3 h5 h6 by (intro conjI)
qed

text \<open>
  The claim as stated fails in two ways. A table file that holds the empty object loads
  successfully and lacks every HID, but \<^verbatim>\<open>if country_data:\<close> takes the empty dict
  for false: the field shows \<^verbatim>\<open>"translation data not found"\<close>. And for the empty
  string as a name the fields are cleared.
\<close>

theorem missing_hid_gives_Unknown_counterexample:
  "name_to_info (init (Parsed example_main) (Parsed [])) =
     Some (fst (load_items example_main Map.empty)) \<and>
   fst (load_items example_main Map.empty) ''anbo'' =
     Some \<lparr>Country = ''Mondstadt'', HID = ''1001''\<rparr> \<and>
   fst (get_country_data empty_tables ''Mondstadt'' (init (Parsed example_main) (Parsed []))) =
     Inr (Some Map.empty) \<and>
   (Map.empty :: table) ''1001'' = None \<and>
   output_edit_1 (fst (translate empty_tables ''anbo''
     (init (Parsed example_main) (Parsed [])))) = DATA_NOT_FOUND \<and>
   DATA_NOT_FOUND \<noteq> ''Unknown'' \<and>
   name_to_info (init (Parsed example_empty_name) (Parsed [])) =
     Some (fst (load_items example_empty_name Map.empty)) \<and>
   fst (load_items example_empty_name Map.empty) [] =
     Some \<lparr>Country = ''Mondstadt'', HID = ''1001''\<rparr> \<and>
   fst (get_country_data other_tables ''Mondstadt''
     (init (Parsed example_empty_name) (Parsed []))) = Inr (Some other_table) \<and>
   other_table \<noteq> Map.empty \<and> other_table ''1001'' = None \<and>
   output_edit_1 (fst (translate other_tables []
     (init (Parsed example_empty_name) (Parsed [])))) = [] \<and>
   [] \<noteq> ''Unknown''"
proof -
  have a: "output_edit_1 (fst (translate empty_tables ''anbo''
     (init (Parsed example_main) (Parsed [])))) = DATA_NOT_FOUND"
    by (simp add: translate_output_edit_1 example_empty_tables_anbo)
  have b: "fst (get_country_data empty_tables ''Mondstadt''
      (init (Parsed example_main) (Parsed []))) = Inr (Some Map.empty)"
    by (simp add: get_country_data_def init_fields empty_tables_def)
  have c: "fst (get_country_data other_tables ''Mondstadt''
     (init (Parsed example_empty_name) (Parsed []))) = Inr (Some other_table)"
    by (simp add: get_country_data_def init_fields other_tables_def)
  have d: "output_edit_1 (fst (translate other_tables []
     (init (Parsed example_empty_name) (Parsed [])))) = []"
    by (simp add: translate_def)
  show ?thesis
    using a b c d
    by (simp add: init_fields example_main_index example_empty_name_index
        DATA_NOT_FOUND_def other_table_def)
qed

text \<open>
  Claim C10, amended. When a country's table file parses to the empty object and the
  cache holds no table for the country, or holds the empty one, then for every non-empty
  text that the first index maps to the country: \<^verbatim>\<open>get_country_data\<close> returns the
  empty table, which is in the cache afterwards, and \<^verbatim>\<open>translate\<close> writes the
  sentinel \<^verbatim>\<open>"translation data not found"\<close> to the first field, which is not the
  placeholder \<^verbatim>\<open>Unknown\<close>.
\<close>

theorem empty_table_is_cached_and_treated_as_unavailable:
  assumes "text \<noteq> []" and "name_to_info s = Some idx" and "idx text = Some info"
    and "read_file env (file_path (Country info)) = Parsed Map.empty"
    and "country_data_cache s (Country info) = None \<or>
         country_data_cache s (Country info) = Some Map.empty"
  shows "fst (get_country_data env (Country info) s) = Inr (Some Map.empty) \<and>
     country_data_cache (snd (get_country_data env (Country info) s)) (Country info) =
       Some Map.empty \<and>
     translate_en env text s =
       (snd (get_country_data env (Country info) s)\<lparr>output_edit_1 := DATA_NOT_FOUND\<rparr>, None) \<and>
     output_edit_1 (fst (translate env text s)) = DATA_NOT_FOUND \<and>
     country_data_cache (fst (translate env text s)) (Country info) = Some Map.empty \<and>
     DATA_NOT_FOUND \<noteq> ''Unknown''"
proof -
  obtain s1 where g: "get_country_data env (Country info) s = (Inr (Some Map.empty), s1)"
    and c1: "country_data_cache s1 (Country info) = Some Map.empty"
    using assms(4,5) by (auto simp: get_country_data_def)
  have en: "translate_en env text s = (s1\<lparr>output_edit_1 := DATA_NOT_FOUND\<rparr>, None)"
    using assms(2,3) g by (simp add: translate_en_def truthy_def)
  have out: "output_edit_1 (fst (translate env text s)) = DATA_NOT_FOUND"
    using assms(1) en by (simp add: translate_output_edit_1)
  have "translate env text s = translate_sk env text (s1\<lparr>output_edit_1 := DATA_NOT_FOUND\<rparr>)"
    using assms(1) en by (rule translate_after_en)
  then have kept: "country_data_cache (fst (translate env text s)) (Country info) = Some Map.empty"
    using c1 by (simp add: translate_sk_en_fields)
  show ?thesis
    using g c1 en out kept by (simp add: DATA_NOT_FOUND_def)
qed

theorem empty_table_is_cached_and_treated_as_unavailable_witness:
  "name_to_info (init (Parsed example_main) (Parsed [])) =
     Some (fst (load_items example_main Map.empty)) \<and>
   fst (load_items example_main Map.empty) ''anbo'' =
     Some \<lparr>Country = ''Mondstadt'', HID = ''1001''\<rparr> \<and>
   read_file empty_tables (file_path ''Mondstadt'') = Parsed Map.empty \<and>
   country_data_cache (init (Parsed example_main) (Parsed [])) ''Mondstadt'' = None \<and>
   output_edit_1 (fst (translate empty_tables ''anbo''
     (init (Parsed example_main) (Parsed [])))) = DATA_NOT_FOUND \<and>
   country_data_cache (fst (translate empty_tables ''anbo''
     (init (Parsed example_main) (Parsed [])))) ''Mondstadt'' = Some Map.empty"
proof -
  let ?s = "init (Parsed example_main) (Parsed [])"
  let ?info = "\<lparr>Country = ''Mondstadt'', HID = ''1001''\<rparr>"
  have h1: "''anbo'' \<noteq> []" by simp
  have h2: "name_to_info ?s = Some (fst (load_items example_main Map.empty))"
    by (rule init_fields)
  have h3: "fst (load_items example_main Map.empty) ''anbo'' = Some ?info"
    by (rule example_main_index)
  have h4: "read_file empty_tables (file_path ''Mondstadt'') = Parsed Map.empty"
    by (simp add: empty_tables_def)
  have h5: "country_data_cache ?s ''Mondstadt'' = None"
    by (simp add: init_fields)
  have h4': "read_file empty_tables (file_path (Country ?info)) = Parsed Map.empty"
    using h4 by simp
  have h5': "country_data_cache ?s (Country ?info) = None \<or>
         country_data_cache ?s (Country ?info) = Some Map.empty"
    using h5 by simp
  note inst = empty_table_is_cached_and_treated_as_unavailable
        [where s = ?s and idx = "fst (load_items example_main Map.empty)"
           and info = ?info and env = empty_tables, OF h1 h2 h3 h4' h5']
  have "output_edit_1 (fst (translate empty_tables ''anbo'' ?s)) = DATA_NOT_FOUND"
    using inst by blast
  moreover have "country_data_cache (fst (translate empty_tables ''anbo'' ?s)) ''Mondstadt'' =
      Some Map.empty"
    using inst by simp
  ultimately show ?thesis
    using h2 h3 h4 h5 by (intro conjI)
qed

text \<open>
  The claim as stated fails in two ways. For the empty string as a name the fields are
  cleared, nothing is looked up and nothing is cached. And when a non-empty table was
  cached before the file came to hold the empty object, the cached table is used: the
  name is shown, and the empty table is not cached.
\<close>

theorem empty_table_is_cached_and_treated_as_unavailable_counterexample:
  "name_to_info (init (Parsed example_empty_name) (Parsed [])) =
     Some (fst (load_items example_empty_name Map.empty)) \<and>
   fst (load_items example_empty_name Map.empty) [] =
     Some \<lparr>Country = ''Mondstadt'', HID = ''1001''\<rparr> \<and>
   read_file empty_tables (file_path ''Mondstadt'') = Parsed Map.empty \<and>
   translate empty_tables [] (init (Parsed example_empty_name) (Parsed [])) =
     ((init (Parsed example_empty_name) (Parsed []))
        \<lparr>output_edit_1 := [], output_edit_2 := []\<rparr>, None) \<and>
   country_data_cache (init (Parsed example_empty_name) (Parsed [])) ''Mondstadt'' = None \<and>
   [] \<noteq> DATA_NOT_FOUND \<and>
   name_to_info (run [(example_files, ''anbo'')] (init (Parsed example_main) (Parsed []))) =
     Some (fst (load_items example_main Map.empty)) \<and>
   fst (load_items example_main Map.empty) ''anbo'' =
     Some \<lparr>Country = ''Mondstadt'', HID = ''1001''\<rparr> \<and>
   output_edit_1 (fst (translate empty_tables ''anbo''
     (run [(example_files, ''anbo'')] (init (Parsed example_main) (Parsed []))))) = ''Amber'' \<and>
   country_data_cache (fst (translate empty_tables ''anbo''
     (run [(example_files, ''anbo'')] (init (Parsed example_main) (Parsed [])))))
     ''Mondstadt'' = Some example_table \<and>
   ''Amber'' \<noteq> DATA_NOT_FOUND \<and> example_table \<noteq> Map.empty"
proof -
  let ?s = "run [(example_files, ''anbo'')] (init (Parsed example_main) (Parsed []))"
  have e: "translate empty_tables [] (init (Parsed example_empty_name) (Parsed [])) =
     ((init (Parsed example_empty_name) (Parsed []))
        \<lparr>output_edit_1 := [], output_edit_2 := []\<rparr>, None)"
    by (simp add: translate_def)
  have hit: "get_country_data empty_tables ''Mondstadt'' ?s = (Inr (Some example_table), ?s)"
    using example_after_anbo(2) by (rule get_country_data_hit)
  have en: "translate_en empty_tables ''anbo'' ?s = (?s\<lparr>output_edit_1 := ''Amber''\<rparr>, None)"
    using example_after_anbo(1) hit
    by (simp add: translate_en_def example_main_index truthy_def example_table_def dict_get_def)
  then have stale: "output_edit_1 (fst (translate empty_tables ''anbo'' ?s)) = ''Amber''"
    by (simp add: translate_output_edit_1)
  have kept: "country_data_cache (fst (translate empty_tables ''anbo'' ?s)) ''Mondstadt'' =
      Some example_table"
    using example_after_anbo(2) by (rule translate_keeps)
  have ne: "example_table \<noteq> Map.empty"
    by (simp add: example_table_def)
  show ?thesis
    using e stale kept ne example_after_anbo(1)
    by (simp add: init_fields example_main_index example_empty_name_index empty_tables_def
        DATA_NOT_FOUND_def)
qed

end
